theory Spec2Isabelle
  imports Complex_Main
begin

section \<open>Strings, paths and the file system\<close>

text \<open>
  Python strings are modelled as HOL strings. \<open>startswith\<close>, \<open>endswith\<close> and
  \<open>str_join\<close> are \<^verbatim>\<open>str.startswith\<close>, \<^verbatim>\<open>str.endswith\<close> and
  \<^verbatim>\<open>sep.join(list)\<close>.
\<close>

definition startswith :: "string \<Rightarrow> string \<Rightarrow> bool" where
  "startswith s p = (take (length p) s = p)"

definition endswith :: "string \<Rightarrow> string \<Rightarrow> bool" where
  "endswith s p = (length p \<le> length s \<and> drop (length s - length p) s = p)"

fun str_join :: "string \<Rightarrow> string list \<Rightarrow> string" where
  "str_join sep [] = []"
| "str_join sep [x] = x"
| "str_join sep (x # y # ys) = x @ sep @ str_join sep (y # ys)"

definition newline :: string where
  "newline = [CHR 0x0A]"

text \<open>
  \<^verbatim>\<open>str.rfind\<close> for a single character: the index of its last occurrence, \<open>None\<close>
  where Python returns \<open>-1\<close>.
\<close>

fun rfind :: "char \<Rightarrow> string \<Rightarrow> nat option" where
  "rfind c [] = None"
| "rfind c (x # xs) =
     (case rfind c xs of
        Some i \<Rightarrow> Some (Suc i)
      | None \<Rightarrow> if x = c then Some 0 else None)"

text \<open>
  Every path the program builds is \<^verbatim>\<open>directory / file_name\<close> with one of the two
  directories of \<^verbatim>\<open>setup_directories\<close>; a path is that pair, and \<open>path_str\<close> is
  \<^verbatim>\<open>str(path)\<close>. The uploaded name is taken to be a single path component, which is
  what an upload widget hands over.

  \<open>stem\<close> is \<^verbatim>\<open>PurePath.stem\<close> of the final component as pathlib computes it
  (up to Python 3.13): the name up to its last dot, unless that dot is the first or the
  last character; \<open>suffix\<close> is the rest.
\<close>

datatype path = Path (path_parent: string) (path_name: string)

definition path_str :: "path \<Rightarrow> string" where
  "path_str p = path_parent p @ ''/'' @ path_name p"

definition stem :: "string \<Rightarrow> string" where
  "stem n =
     (case rfind (CHR ''.'') n of
        Some i \<Rightarrow> if 0 < i \<and> Suc i < length n then take i n else n
      | None \<Rightarrow> n)"

definition suffix :: "string \<Rightarrow> string" where
  "suffix n =
     (case rfind (CHR ''.'') n of
        Some i \<Rightarrow> if 0 < i \<and> Suc i < length n then drop i n else []
      | None \<Rightarrow> [])"

text \<open>
  The file system: the directories that exist and the content of every regular file.
  File content is a string for uploaded bytes and written markdown alike.
\<close>

record filesystem =
  dirs :: "string set"
  files :: "path \<rightharpoonup> string"

datatype exn = Exception string

text \<open>
  How one \<^verbatim>\<open>with open(path, mode) as f: f.write(data)\<close> ends: it completes; or
  \<^verbatim>\<open>open\<close> raises and nothing is touched; or the file is created (truncated) and
  the write raises after some prefix of the data has reached the file.
\<close>

datatype io_outcome = Io_ok | Io_open_fails exn | Io_write_fails exn nat

section \<open>The collaborators\<close>

text \<open>
  The libraries the program calls are parameters of the model:
  \<^item> \<open>guess_type\<close>: the first component of \<^verbatim>\<open>mimetypes.guess_type(name)\<close>, a function
    of the name alone;
  \<^item> \<open>md_convert\<close>: \<^verbatim>\<open>MarkItDown(...).convert(path)\<close>, given the AI client and model
    the converter was built with (if any), the path string and the content of the file
    there; it returns \<^verbatim>\<open>result.text_content\<close> or raises;
  \<^item> \<open>io\<close>: how writing given data to a given path string ends;
  \<^item> \<open>mkdir_fails\<close>: whether the operating system refuses to create a directory.
\<close>

datatype client = OpenAI string

type_synonym llm = "client \<times> string"

record env =
  guess_type :: "string \<Rightarrow> string option"
  md_convert :: "llm option \<Rightarrow> string \<Rightarrow> string \<Rightarrow> exn + string"
  io :: "string \<Rightarrow> string \<Rightarrow> io_outcome"
  mkdir_fails :: "string \<Rightarrow> bool"

section \<open>Data model\<close>

record uploaded_file =
  up_name :: string
  up_buffer :: string

record converted_file =
  cf_name :: string
  cf_path :: path
  cf_content :: string
  cf_is_image :: bool

record session =
  uploaded_files :: "uploaded_file list"
  converted_files :: "converted_file list"
  combined_markdown :: string
  conversion_status :: "(string \<times> string) list"
  show_welcome :: bool
  dark_mode :: bool
  conversion_started :: bool
  needs_reset :: bool

text \<open>
  What the user did on the page for one run of the script: the widget values the sidebar
  reads, and the clock reading \<^verbatim>\<open>datetime.now().strftime('%Y%m%d_%H%M%S')\<close>.
\<close>

record inputs =
  in_dark_mode :: bool
  in_api_key :: string
  in_uploaded :: "uploaded_file list"
  in_convert_clicked :: bool
  in_timestamp :: string

datatype icon = Icon_image | Icon_pdf | Icon_word | Icon_excel | Icon_text | Icon_generic

record download =
  dl_data :: string
  dl_file_name :: string
  dl_mime :: string
  dl_key :: string

text \<open>
  What the script shows, in the order of the calls. Messages are kept by kind and
  payload (the emoji and fixed wording of the source are not part of the model); static
  decoration (titles, dividers, the help panel, the dark-mode style sheet) is left out.
\<close>

datatype ui_event =
    Sidebar_uploaded nat
  | Sidebar_file icon string
  | Welcome_screen
  | Progress_set rat
  | Status_info string
  | Warning_skipping string
  | Error_saving exn
  | Error_converting exn
  | Progress_empty
  | Status_empty
  | Success_complete
  | Download_button download
  | Expander icon string
  | Image path
  | Markdown string

section \<open>Operations\<close>

text \<open>\<^verbatim>\<open>os.makedirs(d, exist_ok=True)\<close>.\<close>

definition makedirs :: "env \<Rightarrow> string \<Rightarrow> filesystem \<Rightarrow> exn + filesystem" where
  "makedirs e d fsys =
     (if d \<in> dirs fsys then Inr fsys
      else if mkdir_fails e d then Inl (Exception ''OSError'')
      else Inr (fsys\<lparr>dirs := insert d (dirs fsys)\<rparr>))"

definition setup_directories ::
  "env \<Rightarrow> filesystem \<Rightarrow> exn + (filesystem \<times> string \<times> string)" where
  "setup_directories e fsys =
     (case makedirs e ''documents'' fsys of
        Inl x \<Rightarrow> Inl x
      | Inr fs1 \<Rightarrow>
          (case makedirs e ''converted'' fs1 of
             Inl x \<Rightarrow> Inl x
           | Inr fs2 \<Rightarrow> Inr (fs2, ''documents'', ''converted'')))"

text \<open>
  \<^verbatim>\<open>is_image_file\<close> returns \<^verbatim>\<open>mimetype and mimetype.startswith('image/')\<close>; the model
  returns its truth value (\<^verbatim>\<open>None\<close> counts as false wherever the result is used).
\<close>

definition is_image_file :: "env \<Rightarrow> string \<Rightarrow> bool" where
  "is_image_file e filename =
     (case guess_type e filename of
        None \<Rightarrow> False
      | Some mimetype \<Rightarrow> startswith mimetype ''image/'')"

definition get_file_icon :: "env \<Rightarrow> string \<Rightarrow> icon" where
  "get_file_icon e filename =
     (if is_image_file e filename then Icon_image
      else if endswith filename ''.pdf'' then Icon_pdf
      else if endswith filename ''.doc'' \<or> endswith filename ''.docx'' then Icon_word
      else if endswith filename ''.xls'' \<or> endswith filename ''.xlsx'' then Icon_excel
      else if endswith filename ''.txt'' then Icon_text
      else Icon_generic)"

text \<open>Writing a file: the exception raised, if any, and the file system afterwards.\<close>

definition write_file ::
  "env \<Rightarrow> filesystem \<Rightarrow> path \<Rightarrow> string \<Rightarrow> exn option \<times> filesystem" where
  "write_file e fsys p content =
     (case io e (path_str p) content of
        Io_ok \<Rightarrow> (None, fsys\<lparr>files := (files fsys)(p \<mapsto> content)\<rparr>)
      | Io_open_fails x \<Rightarrow> (Some x, fsys)
      | Io_write_fails x n \<Rightarrow> (Some x, fsys\<lparr>files := (files fsys)(p \<mapsto> take n content)\<rparr>))"

text \<open>
  \<^verbatim>\<open>save_uploaded_file\<close>: the file system afterwards, what was shown, and the returned
  path (\<open>None\<close> after an exception).
\<close>

definition save_uploaded_file ::
  "env \<Rightarrow> filesystem \<Rightarrow> uploaded_file \<Rightarrow> string
     \<Rightarrow> filesystem \<times> ui_event list \<times> path option" where
  "save_uploaded_file e fsys uploaded save_dir =
     (let file_path = Path save_dir (up_name uploaded) in
      case write_file e fsys file_path (up_buffer uploaded) of
        (None, fs') \<Rightarrow> (fs', [], Some file_path)
      | (Some x, fs') \<Rightarrow> (fs', [Error_saving x], None))"

text \<open>
  \<^verbatim>\<open>convert_to_markdown\<close>. The converter is built with the client and the model
  \<^verbatim>\<open>gpt-4o\<close>, or plain; each call of \<^verbatim>\<open>md.convert\<close> is recorded with what the
  converter was built with and the path string it was given. The result is the file
  system afterwards, what was shown, the conversion calls made, and the returned pair
  (\<open>None\<close> for \<^verbatim>\<open>(None, None)\<close>).
\<close>

type_synonym conv_call = "llm option \<times> string"

definition converter_llm :: "env \<Rightarrow> path \<Rightarrow> client option \<Rightarrow> llm option" where
  "converter_llm e file_path openai_client =
     (if is_image_file e (path_str file_path)
      then (case openai_client of Some c \<Rightarrow> Some (c, ''gpt-4o'') | None \<Rightarrow> None)
      else None)"

definition convert_call ::
  "env \<Rightarrow> filesystem \<Rightarrow> llm option \<Rightarrow> path \<Rightarrow> exn + string" where
  "convert_call e fsys md file_path =
     (case files fsys file_path of
        None \<Rightarrow> Inl (Exception ''FileNotFoundError'')
      | Some content \<Rightarrow> md_convert e md (path_str file_path) content)"

definition convert_to_markdown ::
  "env \<Rightarrow> filesystem \<Rightarrow> path \<Rightarrow> string \<Rightarrow> client option
     \<Rightarrow> filesystem \<times> ui_event list \<times> conv_call list \<times> (path \<times> string) option" where
  "convert_to_markdown e fsys file_path output_dir openai_client =
     (let md = converter_llm e file_path openai_client;
          calls = [(md, path_str file_path)]
      in case convert_call e fsys md file_path of
           Inl x \<Rightarrow> (fsys, [Error_converting x], calls, None)
         | Inr text_content \<Rightarrow>
             (let output_path = Path output_dir (stem (path_name file_path) @ ''.md'')
              in case write_file e fsys output_path text_content of
                   (None, fs') \<Rightarrow> (fs', [], calls, Some (output_path, text_content))
                 | (Some x, fs') \<Rightarrow> (fs', [Error_converting x], calls, None)))"

text \<open>
  \<^verbatim>\<open>initialize_session_state\<close> sets each key that is missing. The keys are only ever
  set together, so the stored state is either absent (a fresh session) or complete.
\<close>

definition default_session :: session where
  "default_session =
     \<lparr>uploaded_files = [], converted_files = [], combined_markdown = [],
      conversion_status = [], show_welcome = True, dark_mode = False,
      conversion_started = False, needs_reset = False\<rparr>"

definition initialize_session_state :: "session option \<Rightarrow> session" where
  "initialize_session_state stored =
     (case stored of None \<Rightarrow> default_session | Some s \<Rightarrow> s)"

text \<open>
  \<^verbatim>\<open>create_sidebar\<close>: the API key entered, the session state afterwards and what the
  sidebar showed. The button is disabled while no file is uploaded, so it reads as
  pressed only when the uploader holds a file.
\<close>

definition create_sidebar ::
  "env \<Rightarrow> inputs \<Rightarrow> session \<Rightarrow> string \<times> session \<times> ui_event list" where
  "create_sidebar e inp s =
     (let s1 = s\<lparr>dark_mode := in_dark_mode inp\<rparr>;
          openai_api_key = in_api_key inp;
          uploaded = in_uploaded inp;
          s2 = (if uploaded \<noteq> [] then s1\<lparr>uploaded_files := uploaded\<rparr> else s1);
          ui = (if uploaded \<noteq> []
                then Sidebar_uploaded (length uploaded) #
                     map (\<lambda>f. Sidebar_file (get_file_icon e (up_name f)) (up_name f)) uploaded
                else []);
          s3 = (if in_convert_clicked inp \<and> uploaded \<noteq> []
                then s2\<lparr>conversion_started := True, converted_files := [],
                        combined_markdown := []\<rparr>
                else s2)
      in (openai_api_key, s3, ui))"

text \<open>
  The state the per-file loop of \<^verbatim>\<open>main\<close> works on: the file system, the session state,
  the local list \<^verbatim>\<open>combined_content\<close>, what has been shown and the conversion calls made.
\<close>

record loop_state =
  ls_fs :: filesystem
  ls_session :: session
  ls_combined_content :: "string list"
  ls_ui :: "ui_event list"
  ls_calls :: "conv_call list"

definition header :: "string \<Rightarrow> string" where
  "header n = newline @ ''## '' @ n @ newline"

text \<open>
  One iteration of the loop, for the file at index \<open>idx\<close> of \<open>n_files\<close>. Every
  \<^verbatim>\<open>continue\<close> of the source is a branch that returns the state reached so far.
\<close>

definition process_file ::
  "env \<Rightarrow> string \<Rightarrow> client option \<Rightarrow> string \<Rightarrow> string \<Rightarrow> nat \<Rightarrow> nat
     \<Rightarrow> uploaded_file \<Rightarrow> loop_state \<Rightarrow> loop_state" where
  "process_file e openai_api_key openai_client docs_dir converted_dir n_files idx uploaded l =
     (let progress = of_nat (idx + 1) / of_nat n_files;
          l1 = l\<lparr>ls_ui := ls_ui l @ [Progress_set progress, Status_info (up_name uploaded)]\<rparr>
      in if is_image_file e (up_name uploaded) \<and> openai_api_key = []
         then l1\<lparr>ls_ui := ls_ui l1 @ [Warning_skipping (up_name uploaded)]\<rparr>
         else
           (case save_uploaded_file e (ls_fs l1) uploaded docs_dir of
              (fs1, ui1, None) \<Rightarrow> l1\<lparr>ls_fs := fs1, ls_ui := ls_ui l1 @ ui1\<rparr>
            | (fs1, ui1, Some file_path) \<Rightarrow>
                (case convert_to_markdown e fs1 file_path converted_dir openai_client of
                   (fs2, ui2, calls, None) \<Rightarrow>
                     l1\<lparr>ls_fs := fs2, ls_ui := ls_ui l1 @ ui1 @ ui2,
                        ls_calls := ls_calls l1 @ calls\<rparr>
                 | (fs2, ui2, calls, Some (output_path, content)) \<Rightarrow>
                     l1\<lparr>ls_fs := fs2, ls_ui := ls_ui l1 @ ui1 @ ui2,
                        ls_calls := ls_calls l1 @ calls,
                        ls_combined_content :=
                          ls_combined_content l1 @ [header (up_name uploaded), content],
                        ls_session := (ls_session l1)
                          \<lparr>converted_files := converted_files (ls_session l1) @
                             [\<lparr>cf_name = up_name uploaded, cf_path = output_path,
                               cf_content = content,
                               cf_is_image = is_image_file e (up_name uploaded)\<rparr>]\<rparr>\<rparr>)))"

text \<open>\<^verbatim>\<open>for idx, uploaded_file in enumerate(...)\<close>, from index \<open>idx\<close> on.\<close>

fun process_files ::
  "env \<Rightarrow> string \<Rightarrow> client option \<Rightarrow> string \<Rightarrow> string \<Rightarrow> nat \<Rightarrow> nat
     \<Rightarrow> uploaded_file list \<Rightarrow> loop_state \<Rightarrow> loop_state" where
  "process_files e k c dd cd n_files idx [] l = l"
| "process_files e k c dd cd n_files idx (u # us) l =
     process_files e k c dd cd n_files (Suc idx) us (process_file e k c dd cd n_files idx u l)"

text \<open>The result panel of one Converted File Record, with its download button.\<close>

definition show_converted :: "env \<Rightarrow> string \<Rightarrow> converted_file \<Rightarrow> ui_event list" where
  "show_converted e docs_dir file_info =
     [Expander (get_file_icon e (cf_name file_info)) (cf_name file_info)] @
     (if cf_is_image file_info
      then [Image (Path docs_dir (cf_name file_info)), Markdown (cf_content file_info)]
      else [Markdown (cf_content file_info)]) @
     [Download_button
        \<lparr>dl_data = cf_content file_info, dl_file_name = cf_name file_info @ ''.md'',
         dl_mime = ''text/markdown'', dl_key = ''download_'' @ cf_name file_info\<rparr>]"

definition openai_client_of :: "string \<Rightarrow> client option" where
  "openai_client_of openai_api_key =
     (if openai_api_key \<noteq> [] then Some (OpenAI openai_api_key) else None)"

text \<open>
  The body of \<^verbatim>\<open>if conversion_started and not converted_files\<close> in \<^verbatim>\<open>main\<close>: the
  conversion run and the display of its results.
\<close>

definition conversion_run ::
  "env \<Rightarrow> inputs \<Rightarrow> string \<Rightarrow> string \<Rightarrow> string \<Rightarrow> session \<Rightarrow> filesystem
     \<Rightarrow> ui_event list \<Rightarrow> session \<times> filesystem \<times> ui_event list \<times> conv_call list" where
  "conversion_run e inp openai_api_key docs_dir converted_dir s fsys ui =
     (let openai_client = openai_client_of openai_api_key;
          l0 = \<lparr>ls_fs = fsys, ls_session = s, ls_combined_content = [],
                ls_ui = ui @ [Progress_set 0], ls_calls = []\<rparr>;
          l1 = process_files e openai_api_key openai_client docs_dir converted_dir
                 (length (uploaded_files s)) 0 (uploaded_files s) l0;
          s1 = (ls_session l1)
                 \<lparr>combined_markdown := str_join newline (ls_combined_content l1)\<rparr>
      in (s1, ls_fs l1,
          ls_ui l1 @
          [Progress_empty, Status_empty, Success_complete,
           Download_button
             \<lparr>dl_data = combined_markdown s1,
              dl_file_name = ''combined_markdown_'' @ in_timestamp inp @ ''.md'',
              dl_mime = ''text/markdown'', dl_key = ''download_all''\<rparr>] @
          concat (map (show_converted e docs_dir) (converted_files s1)),
          ls_calls l1))"

text \<open>
  One run of the script: the stored session state (if any) and the file system come in;
  an exception that leaves \<^verbatim>\<open>main\<close> is \<open>Inl\<close>; otherwise the session state, the file
  system, what was shown and the conversion calls made.
\<close>

definition main ::
  "env \<Rightarrow> inputs \<Rightarrow> session option \<Rightarrow> filesystem
     \<Rightarrow> exn + (session \<times> filesystem \<times> ui_event list \<times> conv_call list)" where
  "main e inp stored fsys =
     (let s0 = initialize_session_state stored
      in case setup_directories e fsys of
           Inl x \<Rightarrow> Inl x
         | Inr (fs1, docs_dir, converted_dir) \<Rightarrow>
             (case create_sidebar e inp s0 of
                (openai_api_key, s1, ui1) \<Rightarrow>
                  if \<not> conversion_started s1
                  then Inr (s1, fs1, ui1 @ [Welcome_screen], [])
                  else if conversion_started s1 \<and> converted_files s1 = []
                  then Inr (conversion_run e inp openai_api_key docs_dir converted_dir
                              s1 fs1 ui1)
                  else Inr (s1, fs1, ui1, [])))"

section \<open>Notions used to state the properties\<close>

text \<open>
  The header and content entries that a list of Converted File Records stands for in the
  combined buffer: for each record, in order, the header block of its name and its
  markdown text.
\<close>

definition blocks :: "converted_file list \<Rightarrow> string list" where
  "blocks rs = concat (map (\<lambda>r. [header (cf_name r), cf_content r]) rs)"

text \<open>
  The markdown an uploaded file contributes to a run with API key \<open>k\<close> and client
  \<open>c\<close>: \<open>None\<close> when it is skipped, cannot be saved, fails to convert or its output
  cannot be written, and the converter's text otherwise.
\<close>

definition converted_text ::
  "env \<Rightarrow> string \<Rightarrow> client option \<Rightarrow> string \<Rightarrow> string \<Rightarrow> uploaded_file \<Rightarrow> string option" where
  "converted_text e k c dd cd u =
     (if is_image_file e (up_name u) \<and> k = [] then None
      else if io e (path_str (Path dd (up_name u))) (up_buffer u) \<noteq> Io_ok then None
      else case md_convert e (converter_llm e (Path dd (up_name u)) c)
                  (path_str (Path dd (up_name u))) (up_buffer u) of
             Inl x \<Rightarrow> None
           | Inr t \<Rightarrow>
               if io e (path_str (Path cd (stem (up_name u) @ ''.md''))) t = Io_ok
               then Some t else None)"

text \<open>The Converted File Record of an upload that converted to the text \<open>t\<close>.\<close>

definition record_of :: "env \<Rightarrow> string \<Rightarrow> uploaded_file \<Rightarrow> string \<Rightarrow> converted_file" where
  "record_of e cd u t =
     \<lparr>cf_name = up_name u, cf_path = Path cd (stem (up_name u) @ ''.md''),
      cf_content = t, cf_is_image = is_image_file e (up_name u)\<rparr>"

definition records_of ::
  "env \<Rightarrow> string \<Rightarrow> client option \<Rightarrow> string \<Rightarrow> string \<Rightarrow> uploaded_file list
     \<Rightarrow> converted_file list" where
  "records_of e k c dd cd us =
     concat (map (\<lambda>u. case converted_text e k c dd cd u of
                         None \<Rightarrow> [] | Some t \<Rightarrow> [record_of e cd u t]) us)"

text \<open>
  The session state and the sidebar output once \<^verbatim>\<open>create_sidebar\<close> has returned, and
  the condition under which \<^verbatim>\<open>main\<close> then enters a conversion run.
\<close>

definition sidebar_session :: "env \<Rightarrow> inputs \<Rightarrow> session option \<Rightarrow> session" where
  "sidebar_session e inp stored =
     fst (snd (create_sidebar e inp (initialize_session_state stored)))"

definition sidebar_ui :: "env \<Rightarrow> inputs \<Rightarrow> session option \<Rightarrow> ui_event list" where
  "sidebar_ui e inp stored =
     snd (snd (create_sidebar e inp (initialize_session_state stored)))"

definition run_due :: "session \<Rightarrow> bool" where
  "run_due s = (conversion_started s \<and> converted_files s = [])"


text \<open>
  The calls on the two progress indicators (the progress bar and the status line), and
  what the loop shows on them for the files from index \<open>idx\<close> on.
\<close>

fun is_indicator :: "ui_event \<Rightarrow> bool" where
  "is_indicator (Progress_set r) = True"
| "is_indicator (Status_info n) = True"
| "is_indicator Progress_empty = True"
| "is_indicator Status_empty = True"
| "is_indicator _ = False"

definition progress_lines :: "nat \<Rightarrow> nat \<Rightarrow> uploaded_file list \<Rightarrow> ui_event list" where
  "progress_lines n idx us =
     concat (map (\<lambda>(i, u). [Progress_set (of_nat (i + 1) / of_nat n), Status_info (up_name u)])
               (enumerate idx us))"

text \<open>The downloads a list of shown elements offers, in order.\<close>

fun download_of :: "ui_event \<Rightarrow> download list" where
  "download_of (Download_button d) = [d]"
| "download_of _ = []"

definition downloads_of :: "ui_event list \<Rightarrow> download list" where
  "downloads_of ui = concat (map download_of ui)"

text \<open>The download offered in the result panel of a Converted File Record.\<close>

definition file_download :: "converted_file \<Rightarrow> download" where
  "file_download r =
     \<lparr>dl_data = cf_content r, dl_file_name = cf_name r @ ''.md'',
      dl_mime = ''text/markdown'', dl_key = ''download_'' @ cf_name r\<rparr>"

section \<open>Example inputs\<close>

text \<open>
  A small environment for concrete runs: \<^verbatim>\<open>.png\<close> names are images, \<^verbatim>\<open>.pdf\<close> names
  have a MIME type that is not an image, any other name has none; the converter fails on
  the content \<^verbatim>\<open>corrupt\<close> and otherwise prefixes the content with a heading mark; no
  write and no directory creation fails.
\<close>

definition demo_env :: env where
  "demo_env =
     \<lparr>guess_type = (\<lambda>n. if endswith n ''.png'' then Some ''image/png''
                          else if endswith n ''.pdf'' then Some ''application/pdf''
                          else None),
      md_convert = (\<lambda>md p content.
                      if content = ''corrupt'' then Inl (Exception ''unreadable'')
                      else Inr (''# '' @ content)),
      io = (\<lambda>p content. Io_ok),
      mkdir_fails = (\<lambda>d. False)\<rparr>"

definition demo_fs :: filesystem where
  "demo_fs = \<lparr>dirs = {}, files = Map.empty\<rparr>"

definition report_pdf :: uploaded_file where
  "report_pdf = \<lparr>up_name = ''report.pdf'', up_buffer = ''alpha''\<rparr>"

definition report_docx :: uploaded_file where
  "report_docx = \<lparr>up_name = ''report.docx'', up_buffer = ''beta''\<rparr>"

definition photo_png :: uploaded_file where
  "photo_png = \<lparr>up_name = ''photo.png'', up_buffer = ''pixels''\<rparr>"

definition broken_txt :: uploaded_file where
  "broken_txt = \<lparr>up_name = ''broken.txt'', up_buffer = ''corrupt''\<rparr>"

definition demo_inputs :: "string \<Rightarrow> uploaded_file list \<Rightarrow> inputs" where
  "demo_inputs k us =
     \<lparr>in_dark_mode = False, in_api_key = k, in_uploaded = us,
      in_convert_clicked = True, in_timestamp = ''20250101_120000''\<rparr>"


definition demo_prior :: session where
  "demo_prior =
     default_session
       \<lparr>uploaded_files := [report_pdf],
        converted_files :=
          [\<lparr>cf_name = ''report.pdf'', cf_path = Path ''converted'' ''report.md'',
            cf_content = ''# alpha'', cf_is_image = False\<rparr>],
        combined_markdown := header ''report.pdf'' @ newline @ ''# alpha'',
        conversion_started := True\<rparr>"

section \<open>Basic facts\<close>

subsection \<open>Records and combined content of the loop\<close>

lemma process_file_session:
  "ls_session (process_file e k c dd cd n idx u l) =
     (ls_session l)\<lparr>converted_files := converted_files (ls_session l) @ records_of e k c dd cd [u]\<rparr>"
  by (auto simp: process_file_def records_of_def converted_text_def record_of_def
      save_uploaded_file_def convert_to_markdown_def write_file_def convert_call_def Let_def
      split: io_outcome.splits sum.splits prod.splits option.splits)

lemma process_file_combined:
  "ls_combined_content (process_file e k c dd cd n idx u l) =
     ls_combined_content l @ blocks (records_of e k c dd cd [u])"
  by (auto simp: process_file_def records_of_def converted_text_def record_of_def blocks_def
      save_uploaded_file_def convert_to_markdown_def write_file_def convert_call_def Let_def
      split: io_outcome.splits sum.splits prod.splits option.splits)

lemma records_of_Nil: "records_of e k c dd cd [] = []"
  by (simp add: records_of_def)

lemma records_of_Cons:
  "records_of e k c dd cd (u # us) = records_of e k c dd cd [u] @ records_of e k c dd cd us"
  by (simp add: records_of_def)

lemma records_of_append:
  "records_of e k c dd cd (xs @ ys) = records_of e k c dd cd xs @ records_of e k c dd cd ys"
  by (simp add: records_of_def)

lemma blocks_append: "blocks (xs @ ys) = blocks xs @ blocks ys"
  by (simp add: blocks_def)

lemma process_files_session:
  "ls_session (process_files e k c dd cd n idx us l) =
     (ls_session l)\<lparr>converted_files := converted_files (ls_session l) @ records_of e k c dd cd us\<rparr>"
proof (induction us arbitrary: idx l)
  case Nil
  show ?case by (simp add: records_of_Nil)
next
  case (Cons u us)
  show ?case
    by (simp add: Cons.IH process_file_session records_of_Cons [of e k c dd cd u us])
qed

lemma process_files_combined:
  "ls_combined_content (process_files e k c dd cd n idx us l) =
     ls_combined_content l @ blocks (records_of e k c dd cd us)"
proof (induction us arbitrary: idx l)
  case Nil
  show ?case by (simp add: records_of_Nil blocks_def)
next
  case (Cons u us)
  show ?case
    by (simp add: Cons.IH process_file_combined blocks_append
        records_of_Cons [of e k c dd cd u us])
qed

subsection \<open>One run of the script\<close>

lemma create_sidebar_key: "fst (create_sidebar e inp s) = in_api_key inp"
  by (simp add: create_sidebar_def Let_def)

lemma setup_directories_dirs:
  "setup_directories e fsys = Inr (fs1, dd, cd) \<Longrightarrow> dd = ''documents'' \<and> cd = ''converted''"
  by (auto simp: setup_directories_def split: sum.splits)

lemma create_sidebar_parts:
  "create_sidebar e inp (initialize_session_state stored) =
     (in_api_key inp, sidebar_session e inp stored, sidebar_ui e inp stored)"
  by (simp add: sidebar_session_def sidebar_ui_def create_sidebar_def Let_def)

lemma main_run:
  assumes "main e inp stored fsys = Inr (s', fs', ui, calls)"
    and "run_due (sidebar_session e inp stored)"
  shows "\<exists>fs1. setup_directories e fsys = Inr (fs1, ''documents'', ''converted'') \<and>
           (s', fs', ui, calls) =
             conversion_run e inp (in_api_key inp) ''documents'' ''converted''
               (sidebar_session e inp stored) fs1 (sidebar_ui e inp stored)"
proof (cases "setup_directories e fsys")
  case (Inl x)
  with assms(1) show ?thesis by (simp add: main_def)
next
  case (Inr r)
  obtain fs1 dd cd where r: "r = (fs1, dd, cd)" by (cases r) auto
  from Inr r have d: "dd = ''documents''" "cd = ''converted''"
    using setup_directories_dirs by blast+
  from assms Inr r d show ?thesis
    by (simp add: main_def create_sidebar_parts run_due_def)
qed

lemma conversion_run_session:
  "converted_files s = [] \<Longrightarrow>
   conversion_run e inp k dd cd s fsys ui0 = (s', fs', ui, calls) \<Longrightarrow>
   converted_files s' = records_of e k (openai_client_of k) dd cd (uploaded_files s) \<and>
   combined_markdown s' = str_join newline (blocks (converted_files s')) \<and>
   uploaded_files s' = uploaded_files s"
  by (auto simp: conversion_run_def Let_def process_files_session process_files_combined)

lemma main_run_uploaded:
  assumes "main e inp stored fsys = Inr (s', fs', ui, calls)"
    and "run_due (sidebar_session e inp stored)"
  shows "uploaded_files s' = uploaded_files (sidebar_session e inp stored)"
proof -
  from main_run [OF assms] obtain fs1 where
    run: "conversion_run e inp (in_api_key inp) ''documents'' ''converted''
            (sidebar_session e inp stored) fs1 (sidebar_ui e inp stored) = (s', fs', ui, calls)"
    by auto
  from assms(2) have "converted_files (sidebar_session e inp stored) = []"
    by (simp add: run_due_def)
  from conversion_run_session [OF this run] show ?thesis by simp
qed


lemma main_returns:
  "setup_directories e fsys = Inr r \<Longrightarrow> \<exists>s' fs' ui calls. main e inp stored fsys = Inr (s', fs', ui, calls)"
  by (cases r; cases "conversion_run e inp (in_api_key inp) (fst (snd r)) (snd (snd r))
        (sidebar_session e inp stored) (fst r) (sidebar_ui e inp stored)")
     (auto simp: main_def create_sidebar_parts)

text \<open>
  A script run that finds Converted File Records already held converts nothing and shows
  nothing beyond the sidebar: the results and downloads belong to the script run that
  made the conversion.
\<close>

lemma script_run_without_conversion:
  assumes "setup_directories e fsys = Inr (fs1, dd, cd)"
    and "conversion_started (sidebar_session e inp stored)"
    and "converted_files (sidebar_session e inp stored) \<noteq> []"
  shows "main e inp stored fsys =
           Inr (sidebar_session e inp stored, fs1, sidebar_ui e inp stored, [])"
  using assms by (simp add: main_def create_sidebar_parts)

subsection \<open>One iteration of the loop\<close>

lemmas step_defs =
  process_file_def save_uploaded_file_def convert_to_markdown_def write_file_def
  convert_call_def Let_def

lemma process_file_skipped:
  "is_image_file e (up_name u) \<Longrightarrow> k = [] \<Longrightarrow>
   process_file e k c dd cd n idx u l =
     l\<lparr>ls_ui := ls_ui l @ [Progress_set (of_nat (idx + 1) / of_nat n), Status_info (up_name u),
                             Warning_skipping (up_name u)]\<rparr>"
  by (simp add: process_file_def Let_def)

lemma convert_to_markdown_raises:
  "files fsys p = Some content \<Longrightarrow>
   md_convert e (converter_llm e p c) (path_str p) content = Inl err \<Longrightarrow>
   convert_to_markdown e fsys p cd c =
     (fsys, [Error_converting err], [(converter_llm e p c, path_str p)], None)"
  by (simp add: convert_to_markdown_def convert_call_def Let_def)

lemma process_file_conversion_raises:
  "\<not> (is_image_file e (up_name u) \<and> k = []) \<Longrightarrow>
   io e (path_str (Path dd (up_name u))) (up_buffer u) = Io_ok \<Longrightarrow>
   md_convert e (converter_llm e (Path dd (up_name u)) c) (path_str (Path dd (up_name u)))
     (up_buffer u) = Inl err \<Longrightarrow>
   process_file e k c dd cd n idx u l =
     l\<lparr>ls_fs := (ls_fs l)\<lparr>files := (files (ls_fs l))(Path dd (up_name u) \<mapsto> up_buffer u)\<rparr>,
       ls_ui := ls_ui l @ [Progress_set (of_nat (idx + 1) / of_nat n), Status_info (up_name u),
                           Error_converting err],
       ls_calls := ls_calls l @
         [(converter_llm e (Path dd (up_name u)) c, path_str (Path dd (up_name u)))]\<rparr>"
  by (auto simp: step_defs)

lemma process_file_converted:
  "converted_text e k c dd cd u = Some t \<Longrightarrow>
   process_file e k c dd cd n idx u l =
     l\<lparr>ls_fs := (ls_fs l)\<lparr>files := (files (ls_fs l))
                (Path dd (up_name u) \<mapsto> up_buffer u,
                 Path cd (stem (up_name u) @ ''.md'') \<mapsto> t)\<rparr>,
       ls_ui := ls_ui l @ [Progress_set (of_nat (idx + 1) / of_nat n), Status_info (up_name u)],
       ls_calls := ls_calls l @
         [(converter_llm e (Path dd (up_name u)) c, path_str (Path dd (up_name u)))],
       ls_combined_content := ls_combined_content l @ [header (up_name u), t],
       ls_session := (ls_session l)
         \<lparr>converted_files := converted_files (ls_session l) @ [record_of e cd u t]\<rparr>\<rparr>"
  by (auto simp: step_defs converted_text_def record_of_def
      split: if_splits io_outcome.splits sum.splits)

lemma process_files_append:
  "process_files e k c dd cd n idx (xs @ ys) l =
     process_files e k c dd cd n (idx + length xs) ys (process_files e k c dd cd n idx xs l)"
  by (induction xs arbitrary: idx l) simp_all

lemma records_of_single_None:
  "converted_text e k c dd cd u = None \<Longrightarrow> records_of e k c dd cd [u] = []"
  by (simp add: records_of_def)

lemma records_of_single_Some:
  "converted_text e k c dd cd u = Some t \<Longrightarrow> records_of e k c dd cd [u] = [record_of e cd u t]"
  by (simp add: records_of_def)

lemma records_of_without:
  "converted_text e k c dd cd u = None \<Longrightarrow>
   records_of e k c dd cd (pre @ u # post) = records_of e k c dd cd pre @ records_of e k c dd cd post"
  using records_of_append [of e k c dd cd pre "u # post"]
    records_of_Cons [of e k c dd cd u post]
  by (simp add: records_of_single_None)

lemma process_file_ui_extends:
  "\<exists>ext. ls_ui (process_file e k c dd cd n idx u l) = ls_ui l @ ext"
  by (auto simp: step_defs split: io_outcome.splits sum.splits prod.splits option.splits)

lemma process_files_ui_extends:
  "\<exists>ext. ls_ui (process_files e k c dd cd n idx us l) = ls_ui l @ ext"
proof (induction us arbitrary: idx l)
  case Nil
  show ?case by simp
next
  case (Cons u us)
  obtain a where a: "ls_ui (process_file e k c dd cd n idx u l) = ls_ui l @ a"
    using process_file_ui_extends by blast
  obtain b where "ls_ui (process_files e k c dd cd n (Suc idx) us (process_file e k c dd cd n idx u l))
      = ls_ui (process_file e k c dd cd n idx u l) @ b"
    using Cons.IH by blast
  with a show ?case by simp
qed

lemma main_run_result:
  assumes "setup_directories e fsys = Inr r"
    and "run_due (sidebar_session e inp stored)"
  shows "\<exists>s' fs' ui calls.
           main e inp stored fsys = Inr (s', fs', ui, calls) \<and>
           converted_files s' =
             records_of e (in_api_key inp) (openai_client_of (in_api_key inp))
               ''documents'' ''converted'' (uploaded_files (sidebar_session e inp stored)) \<and>
           combined_markdown s' = str_join newline (blocks (converted_files s'))"
proof -
  from main_returns [OF assms(1)] obtain s' fs' ui calls where
    m: "main e inp stored fsys = Inr (s', fs', ui, calls)" by blast
  from main_run [OF m assms(2)] obtain fs1 where
    run: "conversion_run e inp (in_api_key inp) ''documents'' ''converted''
            (sidebar_session e inp stored) fs1 (sidebar_ui e inp stored) = (s', fs', ui, calls)"
    by auto
  from assms(2) have "converted_files (sidebar_session e inp stored) = []"
    by (simp add: run_due_def)
  from conversion_run_session [OF this run] m show ?thesis by auto
qed

lemma conversion_run_ui:
  "conversion_run e inp k dd cd s fsys ui0 = (s', fs', ui, calls) \<Longrightarrow>
   \<exists>l1 rest. l1 = process_files e k (openai_client_of k) dd cd (length (uploaded_files s)) 0
                  (uploaded_files s)
                  \<lparr>ls_fs = fsys, ls_session = s, ls_combined_content = [],
                   ls_ui = ui0 @ [Progress_set 0], ls_calls = []\<rparr> \<and>
             ui = ls_ui l1 @ rest \<and> fs' = ls_fs l1 \<and> calls = ls_calls l1"
  by (auto simp: conversion_run_def Let_def)

lemma converted_text_raises:
  "md_convert e (converter_llm e (Path dd (up_name u)) c) (path_str (Path dd (up_name u)))
     (up_buffer u) = Inl err \<Longrightarrow> converted_text e k c dd cd u = None"
  by (simp add: converted_text_def)

lemma converted_text_skipped:
  "is_image_file e (up_name u) \<Longrightarrow> k = [] \<Longrightarrow> converted_text e k c dd cd u = None"
  by (simp add: converted_text_def)

subsection \<open>The client in the loop\<close>



lemma sidebar_session_clicked:
  assumes "in_convert_clicked inp" and "in_uploaded inp \<noteq> []"
  shows "converted_files (sidebar_session e inp stored) = []"
    and "combined_markdown (sidebar_session e inp stored) = []"
    and "conversion_started (sidebar_session e inp stored)"
    and "uploaded_files (sidebar_session e inp stored) = in_uploaded inp"
  using assms by (simp_all add: sidebar_session_def create_sidebar_def Let_def)

subsection \<open>What a run shows\<close>

lemma downloads_of_Nil: "downloads_of [] = []"
  by (simp add: downloads_of_def)

lemma downloads_of_Cons: "downloads_of (x # xs) = download_of x @ downloads_of xs"
  by (simp add: downloads_of_def)

lemma downloads_of_append: "downloads_of (xs @ ys) = downloads_of xs @ downloads_of ys"
  by (simp add: downloads_of_def)

lemmas downloads_simps = downloads_of_Nil downloads_of_Cons downloads_of_append

lemma process_file_ui_shape:
  "\<exists>rest. ls_ui (process_file e k c dd cd n idx u l) =
            ls_ui l @ [Progress_set (of_nat (idx + 1) / of_nat n), Status_info (up_name u)] @ rest \<and>
          filter is_indicator rest = [] \<and> downloads_of rest = []"
  by (auto simp: step_defs downloads_simps
      split: io_outcome.splits sum.splits prod.splits option.splits)

lemma process_files_indicators:
  "filter is_indicator (ls_ui (process_files e k c dd cd n idx us l)) =
     filter is_indicator (ls_ui l) @ progress_lines n idx us"
proof (induction us arbitrary: idx l)
  case Nil
  show ?case by (simp add: progress_lines_def)
next
  case (Cons u us)
  obtain rest where
    "ls_ui (process_file e k c dd cd n idx u l) =
       ls_ui l @ [Progress_set (of_nat (idx + 1) / of_nat n), Status_info (up_name u)] @ rest"
    and "filter is_indicator rest = []"
    using process_file_ui_shape by blast
  then show ?case
    by (simp add: Cons.IH progress_lines_def)
qed

lemma process_files_downloads:
  "downloads_of (ls_ui (process_files e k c dd cd n idx us l)) = downloads_of (ls_ui l)"
proof (induction us arbitrary: idx l)
  case Nil
  show ?case by simp
next
  case (Cons u us)
  obtain rest where
    "ls_ui (process_file e k c dd cd n idx u l) =
       ls_ui l @ [Progress_set (of_nat (idx + 1) / of_nat n), Status_info (up_name u)] @ rest"
    and "downloads_of rest = []"
    using process_file_ui_shape by blast
  then show ?case
    by (simp add: Cons.IH downloads_simps)
qed

lemma sidebar_files_plain:
  "filter is_indicator (map (\<lambda>f. Sidebar_file (get_file_icon e (up_name f)) (up_name f)) xs) = [] \<and>
   downloads_of (map (\<lambda>f. Sidebar_file (get_file_icon e (up_name f)) (up_name f)) xs) = []"
  by (induction xs) (simp_all add: downloads_simps)

lemma sidebar_ui_plain:
  "filter is_indicator (sidebar_ui e inp stored) = [] \<and> downloads_of (sidebar_ui e inp stored) = []"
  by (simp add: sidebar_ui_def create_sidebar_def Let_def downloads_simps sidebar_files_plain)

lemma show_converted_plain:
  "filter is_indicator (concat (map (show_converted e dd) rs)) = [] \<and>
   downloads_of (concat (map (show_converted e dd) rs)) = map file_download rs"
  by (induction rs) (simp_all add: show_converted_def downloads_simps file_download_def)

lemma conversion_run_shown:
  assumes "conversion_run e inp k dd cd s fsys ui0 = (s', fs', ui, calls)"
    and "filter is_indicator ui0 = []" and "downloads_of ui0 = []"
  shows "filter is_indicator ui =
           Progress_set 0 # progress_lines (length (uploaded_files s)) 0 (uploaded_files s) @
           [Progress_empty, Status_empty]"
    and "downloads_of ui =
           \<lparr>dl_data = combined_markdown s',
            dl_file_name = ''combined_markdown_'' @ in_timestamp inp @ ''.md'',
            dl_mime = ''text/markdown'', dl_key = ''download_all''\<rparr> #
           map file_download (converted_files s')"
  using assms
  by (auto simp: conversion_run_def Let_def process_files_indicators process_files_downloads
      show_converted_plain downloads_simps)

lemma main_run_shown:
  assumes m: "main e inp stored fsys = Inr (s', fs', ui, calls)"
    and due: "run_due (sidebar_session e inp stored)"
  shows "filter is_indicator ui =
           Progress_set 0 # progress_lines (length (uploaded_files s')) 0 (uploaded_files s') @
           [Progress_empty, Status_empty]"
    and "downloads_of ui =
           \<lparr>dl_data = combined_markdown s',
            dl_file_name = ''combined_markdown_'' @ in_timestamp inp @ ''.md'',
            dl_mime = ''text/markdown'', dl_key = ''download_all''\<rparr> #
           map file_download (converted_files s')"
proof -
  from main_run [OF m due] obtain fs1 where
    run: "conversion_run e inp (in_api_key inp) ''documents'' ''converted''
            (sidebar_session e inp stored) fs1 (sidebar_ui e inp stored) = (s', fs', ui, calls)"
    by auto
  note up = main_run_uploaded [OF m due]
  from conversion_run_shown(1) [OF run] sidebar_ui_plain [of e inp stored]
  show "filter is_indicator ui =
           Progress_set 0 # progress_lines (length (uploaded_files s')) 0 (uploaded_files s') @
           [Progress_empty, Status_empty]"
    by (simp add: up)
  from conversion_run_shown(2) [OF run] sidebar_ui_plain [of e inp stored]
  show "downloads_of ui =
           \<lparr>dl_data = combined_markdown s',
            dl_file_name = ''combined_markdown_'' @ in_timestamp inp @ ''.md'',
            dl_mime = ''text/markdown'', dl_key = ''download_all''\<rparr> #
           map file_download (converted_files s')"
    by simp
qed

lemma process_file_converted_output:
  assumes "converted_text e k c dd cd u = Some t"
  shows "files (ls_fs (process_file e k c dd cd n idx u l)) (Path cd (stem (up_name u) @ ''.md'')) = Some t"
    and "ls_ui (process_file e k c dd cd n idx u l) =
           ls_ui l @ [Progress_set (of_nat (idx + 1) / of_nat n), Status_info (up_name u)]"
  by (simp_all add: process_file_converted [OF assms])

lemma records_of_pair:
  assumes "converted_text e k c dd cd u1 = Some t1"
    and "converted_text e k c dd cd u2 = Some t2"
  shows "records_of e k c dd cd (pre @ u1 # mid @ u2 # post) =
           records_of e k c dd cd pre @ record_of e cd u1 t1 #
           records_of e k c dd cd mid @ record_of e cd u2 t2 # records_of e k c dd cd post"
  using records_of_Cons [of e k c dd cd u1 "mid @ u2 # post"]
    records_of_Cons [of e k c dd cd u2 post]
  by (simp add: records_of_append records_of_single_Some [OF assms(1)]
      records_of_single_Some [OF assms(2)])

subsection \<open>The example inputs\<close>

lemma demo_setup:
  "setup_directories demo_env demo_fs =
     Inr (demo_fs\<lparr>dirs := {''converted'', ''documents''}\<rparr>, ''documents'', ''converted'')"
  by (simp add: setup_directories_def makedirs_def demo_env_def demo_fs_def)

lemma demo_run_due:
  "us \<noteq> [] \<Longrightarrow> run_due (sidebar_session demo_env (demo_inputs k us) stored)"
  by (simp add: run_due_def sidebar_session_def create_sidebar_def demo_inputs_def Let_def)

lemma demo_uploaded:
  "us \<noteq> [] \<Longrightarrow> uploaded_files (sidebar_session demo_env (demo_inputs k us) stored) = us"
  by (simp add: sidebar_session_def create_sidebar_def demo_inputs_def Let_def)

lemmas demo_simps =
  converted_text_def record_of_def demo_env_def report_pdf_def report_docx_def
  photo_png_def broken_txt_def is_image_file_def endswith_def startswith_def
  converter_llm_def path_str_def stem_def openai_client_of_def

lemma demo_key: "in_api_key (demo_inputs k us) = k"
  by (simp add: demo_inputs_def)

lemma demo_records_pdf:
  "records_of demo_env k c ''documents'' ''converted'' [report_pdf] =
     [\<lparr>cf_name = ''report.pdf'', cf_path = Path ''converted'' ''report.md'',
       cf_content = ''# alpha'', cf_is_image = False\<rparr>]"
  by (simp add: records_of_def demo_simps)

lemma demo_records_docx:
  "records_of demo_env k c ''documents'' ''converted'' [report_docx] =
     [\<lparr>cf_name = ''report.docx'', cf_path = Path ''converted'' ''report.md'',
       cf_content = ''# beta'', cf_is_image = False\<rparr>]"
  by (simp add: records_of_def demo_simps)


section \<open>The combined buffer\<close>



section \<open>Failures and skips\<close>

text \<open>
  Claim C2. Let the conversion call raise for an uploaded file X (which is not skipped and
  was saved). Then \<^verbatim>\<open>convert_to_markdown\<close> catches the exception: it shows one
  conversion error, returns no output and leaves the file system as it was, so X has no
  output file. X's iteration adds no Converted File Record and nothing to the combined
  content; its only traces are the saved upload, the progress and status lines, the
  error and the recorded call. The loop goes on with the files after X, and the run ends
  normally: \<^verbatim>\<open>main\<close> returns, with the records of the files before and after X that
  converted, and the buffer built from them.
\<close>

theorem conversion_failure_contained:
  assumes raises:
      "md_convert e
         (converter_llm e (Path ''documents'' (up_name x)) (openai_client_of (in_api_key inp)))
         (path_str (Path ''documents'' (up_name x))) (up_buffer x) = Inl err"
    and saved: "io e (path_str (Path ''documents'' (up_name x))) (up_buffer x) = Io_ok"
    and not_skipped: "\<not> (is_image_file e (up_name x) \<and> in_api_key inp = [])"
    and setup_ok: "setup_directories e fsys = Inr r"
    and due: "run_due (sidebar_session e inp stored)"
    and upload: "uploaded_files (sidebar_session e inp stored) = pre @ x # post"
  shows
    "convert_to_markdown e
       (fs0\<lparr>files := (files fs0)(Path ''documents'' (up_name x) \<mapsto> up_buffer x)\<rparr>)
       (Path ''documents'' (up_name x)) ''converted'' (openai_client_of (in_api_key inp)) =
       (fs0\<lparr>files := (files fs0)(Path ''documents'' (up_name x) \<mapsto> up_buffer x)\<rparr>,
        [Error_converting err],
        [(converter_llm e (Path ''documents'' (up_name x)) (openai_client_of (in_api_key inp)),
          path_str (Path ''documents'' (up_name x)))],
        None) \<and>
     process_file e (in_api_key inp) (openai_client_of (in_api_key inp))
       ''documents'' ''converted'' n idx x l =
       l\<lparr>ls_fs := (ls_fs l)
            \<lparr>files := (files (ls_fs l))(Path ''documents'' (up_name x) \<mapsto> up_buffer x)\<rparr>,
         ls_ui := ls_ui l @
           [Progress_set (of_nat (idx + 1) / of_nat n), Status_info (up_name x),
            Error_converting err],
         ls_calls := ls_calls l @
           [(converter_llm e (Path ''documents'' (up_name x)) (openai_client_of (in_api_key inp)),
             path_str (Path ''documents'' (up_name x)))]\<rparr> \<and>
     process_files e (in_api_key inp) (openai_client_of (in_api_key inp))
       ''documents'' ''converted'' n idx (x # post) l =
       process_files e (in_api_key inp) (openai_client_of (in_api_key inp))
         ''documents'' ''converted'' n (Suc idx) post
         (process_file e (in_api_key inp) (openai_client_of (in_api_key inp))
            ''documents'' ''converted'' n idx x l) \<and>
     (\<exists>s' fs' ui calls.
        main e inp stored fsys = Inr (s', fs', ui, calls) \<and>
        converted_files s' =
          records_of e (in_api_key inp) (openai_client_of (in_api_key inp))
            ''documents'' ''converted'' pre @
          records_of e (in_api_key inp) (openai_client_of (in_api_key inp))
            ''documents'' ''converted'' post \<and>
        combined_markdown s' = str_join newline (blocks (converted_files s')) \<and>
        Error_converting err \<in> set ui)"
proof -
  let ?k = "in_api_key inp"
  let ?c = "openai_client_of ?k"
  let ?p = "Path ''documents'' (up_name x)"
  have a: "convert_to_markdown e (fs0\<lparr>files := (files fs0)(?p \<mapsto> up_buffer x)\<rparr>) ?p
             ''converted'' ?c =
           (fs0\<lparr>files := (files fs0)(?p \<mapsto> up_buffer x)\<rparr>, [Error_converting err],
            [(converter_llm e ?p ?c, path_str ?p)], None)"
    by (rule convert_to_markdown_raises [OF _ raises]) simp
  have step: "\<And>n idx l. process_file e ?k ?c ''documents'' ''converted'' n idx x l =
       l\<lparr>ls_fs := (ls_fs l)\<lparr>files := (files (ls_fs l))(?p \<mapsto> up_buffer x)\<rparr>,
         ls_ui := ls_ui l @
           [Progress_set (of_nat (idx + 1) / of_nat n), Status_info (up_name x),
            Error_converting err],
         ls_calls := ls_calls l @ [(converter_llm e ?p ?c, path_str ?p)]\<rparr>"
    by (rule process_file_conversion_raises [OF not_skipped saved raises])
  have none: "converted_text e ?k ?c ''documents'' ''converted'' x = None"
    by (rule converted_text_raises [OF raises])
  from main_run_result [OF setup_ok due] obtain s' fs' ui calls where
    m: "main e inp stored fsys = Inr (s', fs', ui, calls)"
    and recs: "converted_files s' =
      records_of e ?k ?c ''documents'' ''converted'' (uploaded_files (sidebar_session e inp stored))"
    and buf: "combined_markdown s' = str_join newline (blocks (converted_files s'))"
    by blast
  from recs have recs': "converted_files s' =
      records_of e ?k ?c ''documents'' ''converted'' pre @
      records_of e ?k ?c ''documents'' ''converted'' post"
    by (simp add: upload records_of_without [OF none])
  have err: "Error_converting err \<in> set ui"
  proof -
    from main_run [OF m due] obtain fs1 where
      run: "conversion_run e inp ?k ''documents'' ''converted''
              (sidebar_session e inp stored) fs1 (sidebar_ui e inp stored) = (s', fs', ui, calls)"
      by auto
    let ?n = "length (pre @ x # post)"
    let ?l0 = "\<lparr>ls_fs = fs1, ls_session = sidebar_session e inp stored,
                 ls_combined_content = [],
                 ls_ui = sidebar_ui e inp stored @ [Progress_set 0], ls_calls = []\<rparr>"
    from conversion_run_ui [OF run] obtain rest where
      ui: "ui = ls_ui (process_files e ?k ?c ''documents'' ''converted'' ?n 0
                  (pre @ x # post) ?l0) @ rest"
      by (auto simp: upload)
    let ?l1 = "process_files e ?k ?c ''documents'' ''converted'' ?n 0 pre ?l0"
    let ?l2 = "process_file e ?k ?c ''documents'' ''converted'' ?n (length pre) x ?l1"
    have split: "process_files e ?k ?c ''documents'' ''converted'' ?n 0 (pre @ x # post) ?l0 =
        process_files e ?k ?c ''documents'' ''converted'' ?n (Suc (length pre)) post ?l2"
      by (simp add: process_files_append)
    obtain ext where ext: "ls_ui (process_files e ?k ?c ''documents'' ''converted'' ?n
        (Suc (length pre)) post ?l2) = ls_ui ?l2 @ ext"
      using process_files_ui_extends by blast
    have "Error_converting err \<in> set (ls_ui ?l2)"
      by (simp add: step)
    with ui split ext show ?thesis by simp
  qed
  from a step m recs' buf err show ?thesis by auto
qed

theorem conversion_failure_contained_witness:
  "\<exists>s' fs' ui calls.
     main demo_env (demo_inputs [] [report_pdf, broken_txt, report_docx]) None demo_fs =
       Inr (s', fs', ui, calls) \<and>
     map cf_name (converted_files s') = [''report.pdf'', ''report.docx''] \<and>
     map cf_content (converted_files s') = [''# alpha'', ''# beta''] \<and>
     combined_markdown s' = str_join newline (blocks (converted_files s')) \<and>
     Error_converting (Exception ''unreadable'') \<in> set ui"
proof -
  let ?inp = "demo_inputs [] [report_pdf, broken_txt, report_docx]"
  have raises:
    "md_convert demo_env
       (converter_llm demo_env (Path ''documents'' (up_name broken_txt))
          (openai_client_of (in_api_key ?inp)))
       (path_str (Path ''documents'' (up_name broken_txt))) (up_buffer broken_txt) =
     Inl (Exception ''unreadable'')"
    by (simp add: demo_env_def broken_txt_def)
  have saved: "io demo_env (path_str (Path ''documents'' (up_name broken_txt)))
      (up_buffer broken_txt) = Io_ok"
    by (simp add: demo_env_def)
  have not_skipped: "\<not> (is_image_file demo_env (up_name broken_txt) \<and> in_api_key ?inp = [])"
    by (simp add: demo_simps)
  have due: "run_due (sidebar_session demo_env ?inp None)"
    by (simp add: demo_run_due)
  have upload: "uploaded_files (sidebar_session demo_env ?inp None) =
      [report_pdf] @ broken_txt # [report_docx]"
    by (simp add: demo_uploaded)
  from conversion_failure_contained [OF raises saved not_skipped demo_setup due upload,
      THEN conjunct2, THEN conjunct2, THEN conjunct2]
  show ?thesis
    by (auto simp: demo_key demo_records_pdf demo_records_docx)
qed

text \<open>
  Claim C3. Let an uploaded file be classified as an image while the API key is empty.
  Its iteration only adds the progress and status lines and exactly one warning: the
  file system is unchanged (nothing is saved), no conversion call is made, no record and
  no combined content is added, and no error is shown. The loop goes on with the next
  file, and the finished run holds the records of the other files only.
\<close>

theorem image_without_credential_skipped:
  assumes image: "is_image_file e (up_name u)"
    and no_key: "in_api_key inp = []"
    and setup_ok: "setup_directories e fsys = Inr r"
    and due: "run_due (sidebar_session e inp stored)"
    and upload: "uploaded_files (sidebar_session e inp stored) = pre @ u # post"
  shows
    "process_file e (in_api_key inp) c dd cd n idx u l =
       l\<lparr>ls_ui := ls_ui l @
           [Progress_set (of_nat (idx + 1) / of_nat n), Status_info (up_name u),
            Warning_skipping (up_name u)]\<rparr> \<and>
     process_files e (in_api_key inp) c dd cd n idx (u # post) l =
       process_files e (in_api_key inp) c dd cd n (Suc idx) post
         (l\<lparr>ls_ui := ls_ui l @
             [Progress_set (of_nat (idx + 1) / of_nat n), Status_info (up_name u),
              Warning_skipping (up_name u)]\<rparr>) \<and>
     (\<exists>s' fs' ui calls.
        main e inp stored fsys = Inr (s', fs', ui, calls) \<and>
        converted_files s' =
          records_of e [] None ''documents'' ''converted'' pre @
          records_of e [] None ''documents'' ''converted'' post \<and>
        combined_markdown s' = str_join newline (blocks (converted_files s')))"
proof -
  have step: "process_file e (in_api_key inp) c dd cd n idx u l =
       l\<lparr>ls_ui := ls_ui l @
           [Progress_set (of_nat (idx + 1) / of_nat n), Status_info (up_name u),
            Warning_skipping (up_name u)]\<rparr>"
    by (rule process_file_skipped [OF image no_key])
  have none: "converted_text e [] None ''documents'' ''converted'' u = None"
    by (rule converted_text_skipped [OF image refl])
  from main_run_result [OF setup_ok due] obtain s' fs' ui calls where
    m: "main e inp stored fsys = Inr (s', fs', ui, calls)"
    and recs: "converted_files s' =
      records_of e (in_api_key inp) (openai_client_of (in_api_key inp))
        ''documents'' ''converted'' (uploaded_files (sidebar_session e inp stored))"
    and buf: "combined_markdown s' = str_join newline (blocks (converted_files s'))"
    by blast
  from recs have "converted_files s' =
      records_of e [] None ''documents'' ''converted'' pre @
      records_of e [] None ''documents'' ''converted'' post"
    by (simp add: upload no_key openai_client_of_def records_of_without [OF none])
  with step m buf show ?thesis by auto
qed

theorem image_without_credential_skipped_witness:
  "\<exists>s' fs' ui calls.
     main demo_env (demo_inputs [] [report_pdf, photo_png, report_docx]) None demo_fs =
       Inr (s', fs', ui, calls) \<and>
     map cf_name (converted_files s') = [''report.pdf'', ''report.docx''] \<and>
     combined_markdown s' = str_join newline (blocks (converted_files s'))"
proof -
  let ?inp = "demo_inputs [] [report_pdf, photo_png, report_docx]"
  have image: "is_image_file demo_env (up_name photo_png)"
    by (simp add: demo_simps)
  have due: "run_due (sidebar_session demo_env ?inp None)"
    by (simp add: demo_run_due)
  have upload: "uploaded_files (sidebar_session demo_env ?inp None) =
      [report_pdf] @ photo_png # [report_docx]"
    by (simp add: demo_uploaded)
  from image_without_credential_skipped [OF image demo_key demo_setup due upload,
      THEN conjunct2, THEN conjunct2]
  show ?thesis
    by (auto simp: demo_records_pdf demo_records_docx)
qed

section \<open>Storage\<close>



section \<open>The AI client\<close>



section \<open>Starting a run\<close>

text \<open>
  Claim C6. When the Convert button is pressed (which needs an uploaded file), the
  sidebar empties the list of Converted File Records and the combined buffer and starts
  the run, all before the loop sees its first file. Whatever the session held before,
  the finished run holds the records of this run's uploads only and the buffer built
  from them: the same records and buffer as a run of the same inputs in a fresh session.
\<close>

theorem rerun_starts_empty:
  assumes clicked: "in_convert_clicked inp"
    and some_file: "in_uploaded inp \<noteq> []"
    and m: "main e inp stored fsys = Inr (s', fs', ui, calls)"
  shows
    "converted_files (sidebar_session e inp stored) = [] \<and>
     combined_markdown (sidebar_session e inp stored) = [] \<and>
     run_due (sidebar_session e inp stored) \<and>
     converted_files s' =
       records_of e (in_api_key inp) (openai_client_of (in_api_key inp))
         ''documents'' ''converted'' (in_uploaded inp) \<and>
     combined_markdown s' = str_join newline (blocks (converted_files s')) \<and>
     (main e inp None fsys0 = Inr (s0, fs0, ui0, calls0) \<longrightarrow>
        converted_files s' = converted_files s0 \<and> combined_markdown s' = combined_markdown s0)"
proof -
  note sb = sidebar_session_clicked [OF clicked some_file]
  have due: "\<And>st. run_due (sidebar_session e inp st)"
    by (simp add: run_due_def sb)
  have res: "\<And>st f s1 f1 u1 c1. main e inp st f = Inr (s1, f1, u1, c1) \<Longrightarrow>
      converted_files s1 =
        records_of e (in_api_key inp) (openai_client_of (in_api_key inp))
          ''documents'' ''converted'' (in_uploaded inp) \<and>
      combined_markdown s1 = str_join newline (blocks (converted_files s1))"
  proof -
    fix st f s1 f1 u1 c1
    assume a: "main e inp st f = Inr (s1, f1, u1, c1)"
    from main_run [OF a due] obtain g where
      run: "conversion_run e inp (in_api_key inp) ''documents'' ''converted''
              (sidebar_session e inp st) g (sidebar_ui e inp st) = (s1, f1, u1, c1)"
      by auto
    from conversion_run_session [OF sb(1) run]
    show "converted_files s1 =
        records_of e (in_api_key inp) (openai_client_of (in_api_key inp))
          ''documents'' ''converted'' (in_uploaded inp) \<and>
      combined_markdown s1 = str_join newline (blocks (converted_files s1))"
      by (simp add: sb)
  qed
  from res [OF m] have 1: "converted_files s' =
       records_of e (in_api_key inp) (openai_client_of (in_api_key inp))
         ''documents'' ''converted'' (in_uploaded inp)"
    and 2: "combined_markdown s' = str_join newline (blocks (converted_files s'))"
    by blast+
  have 3: "main e inp None fsys0 = Inr (s0, fs0, ui0, calls0) \<longrightarrow>
        converted_files s' = converted_files s0 \<and> combined_markdown s' = combined_markdown s0"
  proof
    assume "main e inp None fsys0 = Inr (s0, fs0, ui0, calls0)"
    from res [OF this] 1 2 show
      "converted_files s' = converted_files s0 \<and> combined_markdown s' = combined_markdown s0"
      by simp
  qed
  from sb(1,2) due 1 2 3 show ?thesis by blast
qed

theorem rerun_starts_empty_witness:
  "\<exists>s' fs' ui calls.
     main demo_env (demo_inputs [] [report_docx]) (Some demo_prior) demo_fs =
       Inr (s', fs', ui, calls) \<and>
     converted_files demo_prior \<noteq> [] \<and>
     converted_files (sidebar_session demo_env (demo_inputs [] [report_docx]) (Some demo_prior)) = [] \<and>
     combined_markdown (sidebar_session demo_env (demo_inputs [] [report_docx]) (Some demo_prior)) = [] \<and>
     converted_files s' =
       [\<lparr>cf_name = ''report.docx'', cf_path = Path ''converted'' ''report.md'',
         cf_content = ''# beta'', cf_is_image = False\<rparr>]"
proof -
  let ?inp = "demo_inputs [] [report_docx]"
  have clicked: "in_convert_clicked ?inp" by (simp add: demo_inputs_def)
  have some_file: "in_uploaded ?inp \<noteq> []" by (simp add: demo_inputs_def)
  from main_returns [OF demo_setup] obtain s' fs' ui calls where
    m: "main demo_env ?inp (Some demo_prior) demo_fs = Inr (s', fs', ui, calls)" by blast
  have p: "converted_files demo_prior \<noteq> []" by (simp add: demo_prior_def)
  from rerun_starts_empty [OF clicked some_file m] m p show ?thesis
    by (auto simp: demo_key demo_inputs_def demo_records_docx)
qed

section \<open>File classification\<close>

text \<open>
  Claim C7. Classification reads the file name only. A name for which MIME inference
  gives no type (an unrecognised extension, or none) is not an image, and its icon is the
  generic one whenever the name ends in none of \<^verbatim>\<open>.pdf\<close>, \<^verbatim>\<open>.doc\<close>, \<^verbatim>\<open>.docx\<close>,
  \<^verbatim>\<open>.xls\<close>, \<^verbatim>\<open>.xlsx\<close>, \<^verbatim>\<open>.txt\<close>.
\<close>

theorem unrecognised_name_not_image:
  assumes "guess_type e filename = None"
  shows "\<not> is_image_file e filename \<and>
         (\<not> endswith filename ''.pdf'' \<and> \<not> endswith filename ''.doc'' \<and>
          \<not> endswith filename ''.docx'' \<and> \<not> endswith filename ''.xls'' \<and>
          \<not> endswith filename ''.xlsx'' \<and> \<not> endswith filename ''.txt'' \<longrightarrow>
          get_file_icon e filename = Icon_generic)"
  using assms by (simp add: is_image_file_def get_file_icon_def)

theorem unrecognised_name_not_image_witness:
  "\<not> is_image_file demo_env ''README'' \<and> get_file_icon demo_env ''README'' = Icon_generic \<and>
   \<not> is_image_file demo_env ''data.xyz'' \<and> get_file_icon demo_env ''data.xyz'' = Icon_generic"
proof -
  have a: "guess_type demo_env ''README'' = None"
    by (simp add: demo_env_def endswith_def)
  have b: "guess_type demo_env ''data.xyz'' = None"
    by (simp add: demo_env_def endswith_def)
  from unrecognised_name_not_image [OF a] unrecognised_name_not_image [OF b]
  show ?thesis by (simp add: endswith_def)
qed

section \<open>Progress reporting\<close>

text \<open>
  Claim C8. In a conversion run over N uploaded files, the calls on the progress bar and
  the status line are, in order: the bar set to 0; then for the k-th file (k = 1..N), at
  the start of its iteration and before anything else about it is shown, the bar set to
  k/N and the status line set to that file's name; and, after the last file, the bar and
  the status line cleared. The fraction is kept as a rational number.
\<close>

theorem progress_reported_and_cleared:
  assumes "main e inp stored fsys = Inr (s', fs', ui, calls)"
    and "run_due (sidebar_session e inp stored)"
  shows
    "filter is_indicator ui =
       Progress_set 0 # progress_lines (length (uploaded_files s')) 0 (uploaded_files s') @
       [Progress_empty, Status_empty] \<and>
     (\<exists>rest. ls_ui (process_file e k c dd cd n idx u l) =
               ls_ui l @ [Progress_set (of_nat (idx + 1) / of_nat n), Status_info (up_name u)] @ rest \<and>
             filter is_indicator rest = [])"
  using main_run_shown(1) [OF assms] process_file_ui_shape [of e k c dd cd n idx u l]
  by blast

theorem progress_reported_and_cleared_witness:
  "\<exists>s' fs' ui calls.
     main demo_env (demo_inputs [] [report_pdf, broken_txt]) None demo_fs =
       Inr (s', fs', ui, calls) \<and>
     filter is_indicator ui =
       [Progress_set 0,
        Progress_set (1 / 2), Status_info ''report.pdf'',
        Progress_set 1, Status_info ''broken.txt'',
        Progress_empty, Status_empty]"
proof -
  let ?inp = "demo_inputs [] [report_pdf, broken_txt]"
  from main_returns [OF demo_setup] obtain s' fs' ui calls where
    m: "main demo_env ?inp None demo_fs = Inr (s', fs', ui, calls)" by blast
  have due: "run_due (sidebar_session demo_env ?inp None)"
    by (simp add: demo_run_due)
  have up: "uploaded_files s' = [report_pdf, broken_txt]"
    using main_run_uploaded [OF m due] by (simp add: demo_uploaded)
  from progress_reported_and_cleared [OF m due, THEN conjunct1]
  have "filter is_indicator ui =
       [Progress_set 0,
        Progress_set (1 / 2), Status_info ''report.pdf'',
        Progress_set 1, Status_info ''broken.txt'',
        Progress_empty, Status_empty]"
    by (simp add: up progress_lines_def enumerate_simps report_pdf_def broken_txt_def)
  with m show ?thesis by blast
qed

section \<open>Downloads\<close>



section \<open>Output names\<close>

text \<open>
  Claim C10. Let two uploaded files have names with the same stem and different
  extensions, and let both convert. Then both conversions write to the same path in the
  output directory, the stem followed by \<^verbatim>\<open>.md\<close>: after the first file's iteration
  that file holds the first text, and after the second file's iteration, whatever the
  file held, it holds the second text, with nothing shown but the progress and status
  lines. The records of the two files are different records with that same path, each
  with its own markdown text, and both stand in the list of records and in the combined
  buffer of the finished run, while the output file holds the text of the later one.
\<close>

theorem same_stem_outputs_collide:
  assumes same_stem: "stem (up_name u1) = stem (up_name u2)"
    and other_ext: "suffix (up_name u1) \<noteq> suffix (up_name u2)"
    and t1: "converted_text e (in_api_key inp) (openai_client_of (in_api_key inp))
               ''documents'' ''converted'' u1 = Some t1"
    and t2: "converted_text e (in_api_key inp) (openai_client_of (in_api_key inp))
               ''documents'' ''converted'' u2 = Some t2"
    and setup_ok: "setup_directories e fsys = Inr r"
    and due: "run_due (sidebar_session e inp stored)"
    and upload: "uploaded_files (sidebar_session e inp stored) = pre @ u1 # mid @ [u2]"
  shows
    "cf_path (record_of e ''converted'' u1 t1) = Path ''converted'' (stem (up_name u1) @ ''.md'') \<and>
     cf_path (record_of e ''converted'' u2 t2) = Path ''converted'' (stem (up_name u1) @ ''.md'') \<and>
     cf_content (record_of e ''converted'' u1 t1) = t1 \<and>
     cf_content (record_of e ''converted'' u2 t2) = t2 \<and>
     record_of e ''converted'' u1 t1 \<noteq> record_of e ''converted'' u2 t2 \<and>
     files (ls_fs (process_file e (in_api_key inp) (openai_client_of (in_api_key inp))
                     ''documents'' ''converted'' n i u1 l))
       (Path ''converted'' (stem (up_name u1) @ ''.md'')) = Some t1 \<and>
     files (ls_fs (process_file e (in_api_key inp) (openai_client_of (in_api_key inp))
                     ''documents'' ''converted'' n j u2 l'))
       (Path ''converted'' (stem (up_name u1) @ ''.md'')) = Some t2 \<and>
     ls_ui (process_file e (in_api_key inp) (openai_client_of (in_api_key inp))
              ''documents'' ''converted'' n j u2 l') =
       ls_ui l' @ [Progress_set (of_nat (j + 1) / of_nat n), Status_info (up_name u2)] \<and>
     (\<exists>s' fs' ui calls.
        main e inp stored fsys = Inr (s', fs', ui, calls) \<and>
        converted_files s' =
          records_of e (in_api_key inp) (openai_client_of (in_api_key inp))
            ''documents'' ''converted'' pre @
          record_of e ''converted'' u1 t1 #
          records_of e (in_api_key inp) (openai_client_of (in_api_key inp))
            ''documents'' ''converted'' mid @
          [record_of e ''converted'' u2 t2] \<and>
        combined_markdown s' =
          str_join newline
            (blocks (records_of e (in_api_key inp) (openai_client_of (in_api_key inp))
                       ''documents'' ''converted'' pre) @
             [header (up_name u1), t1] @
             blocks (records_of e (in_api_key inp) (openai_client_of (in_api_key inp))
                       ''documents'' ''converted'' mid) @
             [header (up_name u2), t2]) \<and>
        files fs' (Path ''converted'' (stem (up_name u1) @ ''.md'')) = Some t2)"
proof -
  let ?k = "in_api_key inp"
  let ?c = "openai_client_of ?k"
  let ?out = "Path ''converted'' (stem (up_name u1) @ ''.md'')"
  let ?r1 = "record_of e ''converted'' u1 t1"
  let ?r2 = "record_of e ''converted'' u2 t2"
  have p: "cf_path ?r1 = ?out" "cf_path ?r2 = ?out" "cf_content ?r1 = t1" "cf_content ?r2 = t2"
    by (simp_all add: record_of_def same_stem)
  from other_ext have names: "up_name u1 \<noteq> up_name u2" by auto
  then have ne: "?r1 \<noteq> ?r2" by (auto simp: record_of_def)
  have f1: "\<And>n i l. files (ls_fs (process_file e ?k ?c ''documents'' ''converted'' n i u1 l)) ?out
      = Some t1"
    by (rule process_file_converted_output(1) [OF t1])
  have f2: "\<And>n j l'. files (ls_fs (process_file e ?k ?c ''documents'' ''converted'' n j u2 l')) ?out
      = Some t2"
    using process_file_converted_output(1) [OF t2] by (simp add: same_stem)
  have q2: "\<And>n j l'. ls_ui (process_file e ?k ?c ''documents'' ''converted'' n j u2 l') =
       ls_ui l' @ [Progress_set (of_nat (j + 1) / of_nat n), Status_info (up_name u2)]"
    by (rule process_file_converted_output(2) [OF t2])
  from main_run_result [OF setup_ok due] obtain s' fs' ui calls where
    m: "main e inp stored fsys = Inr (s', fs', ui, calls)"
    and recs: "converted_files s' =
      records_of e ?k ?c ''documents'' ''converted'' (uploaded_files (sidebar_session e inp stored))"
    and buf: "combined_markdown s' = str_join newline (blocks (converted_files s'))"
    by blast
  from recs records_of_pair [OF t1 t2, of pre mid "[]"]
  have recs': "converted_files s' =
      records_of e ?k ?c ''documents'' ''converted'' pre @ ?r1 #
      records_of e ?k ?c ''documents'' ''converted'' mid @ [?r2]"
    by (simp add: upload records_of_Nil)
  have buf': "combined_markdown s' =
      str_join newline
        (blocks (records_of e ?k ?c ''documents'' ''converted'' pre) @
         [header (up_name u1), t1] @
         blocks (records_of e ?k ?c ''documents'' ''converted'' mid) @
         [header (up_name u2), t2])"
    unfolding buf recs' by (simp add: blocks_def record_of_def)
  have disk: "files fs' ?out = Some t2"
  proof -
    from main_run [OF m due] obtain fs1 where
      run: "conversion_run e inp ?k ''documents'' ''converted''
              (sidebar_session e inp stored) fs1 (sidebar_ui e inp stored) = (s', fs', ui, calls)"
      by auto
    from conversion_run_ui [OF run] have
      "fs' = ls_fs (process_files e ?k ?c ''documents'' ''converted''
                      (length (pre @ u1 # mid @ [u2])) 0 (pre @ u1 # mid @ [u2])
                      \<lparr>ls_fs = fs1, ls_session = sidebar_session e inp stored,
                       ls_combined_content = [],
                       ls_ui = sidebar_ui e inp stored @ [Progress_set 0], ls_calls = []\<rparr>)"
      by (auto simp: upload)
    then show ?thesis
      using process_files_append [of e ?k ?c "''documents''" "''converted''" _ 0 "pre @ u1 # mid" "[u2]"]
      by (simp add: f2)
  qed
  from p ne f1 f2 q2 m recs' buf' disk show ?thesis by blast
qed

theorem same_stem_outputs_collide_witness:
  "\<exists>s' fs' ui calls.
     main demo_env (demo_inputs [] [report_pdf, report_docx]) None demo_fs =
       Inr (s', fs', ui, calls) \<and>
     map cf_name (converted_files s') = [''report.pdf'', ''report.docx''] \<and>
     map cf_path (converted_files s') =
       [Path ''converted'' ''report.md'', Path ''converted'' ''report.md''] \<and>
     map cf_content (converted_files s') = [''# alpha'', ''# beta''] \<and>
     files fs' (Path ''converted'' ''report.md'') = Some ''# beta''"
proof -
  let ?inp = "demo_inputs [] [report_pdf, report_docx]"
  have same_stem: "stem (up_name report_pdf) = stem (up_name report_docx)"
    by (simp add: stem_def report_pdf_def report_docx_def)
  have other_ext: "suffix (up_name report_pdf) \<noteq> suffix (up_name report_docx)"
    by (simp add: suffix_def report_pdf_def report_docx_def)
  have t1: "converted_text demo_env (in_api_key ?inp) (openai_client_of (in_api_key ?inp))
              ''documents'' ''converted'' report_pdf = Some ''# alpha''"
    by (simp add: demo_key) (simp add: demo_simps)
  have t2: "converted_text demo_env (in_api_key ?inp) (openai_client_of (in_api_key ?inp))
              ''documents'' ''converted'' report_docx = Some ''# beta''"
    by (simp add: demo_key) (simp add: demo_simps)
  have due: "run_due (sidebar_session demo_env ?inp None)"
    by (simp add: demo_run_due)
  have upload: "uploaded_files (sidebar_session demo_env ?inp None) =
      [] @ report_pdf # [] @ [report_docx]"
    by (simp add: demo_uploaded)
  from same_stem_outputs_collide [OF same_stem other_ext t1 t2 demo_setup due upload]
  obtain s' fs' ui calls where
    "main demo_env ?inp None demo_fs = Inr (s', fs', ui, calls)"
    and "converted_files s' =
      records_of demo_env (in_api_key ?inp) (openai_client_of (in_api_key ?inp))
        ''documents'' ''converted'' [] @
      record_of demo_env ''converted'' report_pdf ''# alpha'' #
      records_of demo_env (in_api_key ?inp) (openai_client_of (in_api_key ?inp))
        ''documents'' ''converted'' [] @
      [record_of demo_env ''converted'' report_docx ''# beta'']"
    and "files fs' (Path ''converted'' (stem (up_name report_pdf) @ ''.md'')) = Some ''# beta''"
    by blast
  then show ?thesis
    by (auto simp: records_of_Nil record_of_def report_pdf_def report_docx_def stem_def)
qed

end
